theory Spec2Isabelle
  imports Main "HOL-Library.Sublist" "HOL-Library.Multiset"
begin

section \<open>DataStorageApp: a bounded recorder of vehicle signals\<close>

text \<open>
  The development follows \<^verbatim>\<open>src/app/src/main.py\<close>. The application object keeps four
  cached signal values and a deque of samples; a timer loop appends one sample per
  iteration and a subscriber of the topic \<^verbatim>\<open>crashdetect/crashed\<close> writes the deque to a
  CSV file, clears it and publishes a response.
\<close>

subsection \<open>Python values\<close>

text \<open>
  The values that flow through the program are passed on and never computed with:
  the initial slot value \<^verbatim>\<open>0\<close> is an \<^verbatim>\<open>int\<close>, \<^verbatim>\<open>time.time()\<close> is a \<^verbatim>\<open>float\<close>, the signal
  values are whatever the data broker delivers. Floats are kept abstract (type \<open>'f\<close>).
\<close>

datatype 'f pyval =
    PNone
  | PBool bool
  | PInt int
  | PFloat 'f
  | PStr string

text \<open>What \<^verbatim>\<open>json.loads\<close> returns; a \<^verbatim>\<open>dict\<close> is the list of its items (keys distinct).\<close>

datatype 'f json =
    JNull
  | JBool bool
  | JInt int
  | JFloat 'f
  | JString string
  | JArray "'f json list"
  | JObject "(string \<times> 'f json) list"

datatype error =
    JSONDecodeError
  | ValueError
  | RecursionError
  | KeyError
  | TypeError
  | OSError

subsection \<open>The application object and what it acts on\<close>

text \<open>
  The four signals the application subscribes to in \<^verbatim>\<open>on_start\<close>, and the reply a
  subscription callback receives: \<open>data s\<close> stands for \<^verbatim>\<open>data.get(s).value\<close>.
\<close>

datatype signal = IsWarning | Longitudinal | Speed | Displacement

type_synonym 'f DataPointReply = "signal \<Rightarrow> 'f pyval"

text \<open>
  A sample (the list \<^verbatim>\<open>temp\<close>) and a row handed to \<^verbatim>\<open>writer.writerow\<close> are both
  Python lists of values.
\<close>

type_synonym 'f row = "'f pyval list"

text \<open>
  The first five fields are the attributes set in \<^verbatim>\<open>__init__\<close>. The last two are what
  the handlers act on outside the object: the rows of \<^verbatim>\<open>vehicle_data.csv\<close> as they were
  handed to the CSV writer (\<open>None\<close> while the file does not exist) and the messages given
  to \<^verbatim>\<open>publish_event\<close> so far, oldest first. Logging is left out.
\<close>

record 'f state =
  distance :: "'f pyval"
  accel :: "'f pyval"
  speed :: "'f pyval"
  displacement :: "'f pyval"
  storage :: "'f row list"
  csv_file :: "'f row list option"
  published :: "(string \<times> 'f json) list"

text \<open>
  What the program takes from the Python library and cannot be written down here:
  the parser \<^verbatim>\<open>json.loads\<close> (\<open>None\<close> when it raises), the exception it raises when it
  does (\<^verbatim>\<open>JSONDecodeError\<close> for a text that is not JSON; \<^verbatim>\<open>ValueError\<close> for an integer
  beyond the digit limit and \<^verbatim>\<open>RecursionError\<close> for a nesting too deep, in texts that are
  JSON), the comparison of a float with \<^verbatim>\<open>0\<close>, and the text \<^verbatim>\<open>str\<close> gives for a float.
\<close>

record 'f runtime =
  json_loads :: "string \<Rightarrow> 'f json option"
  json_loads_raises :: "string \<Rightarrow> error"
  float_eq_zero :: "'f \<Rightarrow> bool"
  float_str :: "'f \<Rightarrow> string"

text \<open>
  How the file system answers one dump: everything succeeds; \<^verbatim>\<open>open\<close> raises; or
  \<^verbatim>\<open>open\<close> succeeds, \<open>k\<close> calls of \<^verbatim>\<open>writerow\<close> succeed and the next one raises (closing the
  file raises when there is no next one).
\<close>

datatype io = IoOk | OpenFails | WriteFails nat

definition SET_CRASH_RESPONSE_TOPIC :: string where
  "SET_CRASH_RESPONSE_TOPIC = ''crashdetect/crashed/response''"

text \<open>\<^verbatim>\<open>__init__\<close>; \<open>fs\<close> is the file as the process finds it.\<close>

definition DataStorageApp_init :: "'f row list option \<Rightarrow> 'f state" where
  "DataStorageApp_init fs =
     \<lparr>distance = PInt 0, accel = PInt 0, speed = PInt 0, displacement = PInt 0,
      storage = [], csv_file = fs, published = []\<rparr>"

subsection \<open>The signal callbacks (lines 66 to 78)\<close>

definition on_distance_change :: "'f state \<Rightarrow> 'f DataPointReply \<Rightarrow> 'f state" where
  "on_distance_change st data = st\<lparr>distance := data IsWarning\<rparr>"

definition on_accel_change :: "'f state \<Rightarrow> 'f DataPointReply \<Rightarrow> 'f state" where
  "on_accel_change st data = st\<lparr>accel := data Longitudinal\<rparr>"

definition on_speed_change :: "'f state \<Rightarrow> 'f DataPointReply \<Rightarrow> 'f state" where
  "on_speed_change st data = st\<lparr>speed := data Speed\<rparr>"

definition on_displacement_change :: "'f state \<Rightarrow> 'f DataPointReply \<Rightarrow> 'f state" where
  "on_displacement_change st data = st\<lparr>displacement := data Displacement\<rparr>"

subsection \<open>The deque of samples (lines 89 to 92)\<close>

text \<open>
  \<^verbatim>\<open>
  if len(self.storage) == 300:
      self.storage.popleft()
  self.storage.append(temp)
  \<close>
  The deque is the list of its elements, oldest first. \<^verbatim>\<open>popleft\<close> is only reached on
  a deque of 300 elements, so it never raises.
\<close>

definition storage_append :: "'a \<Rightarrow> 'a list \<Rightarrow> 'a list" where
  "storage_append temp dq =
     (if length dq = 300 then tl dq else dq) @ [temp]"

text \<open>A run of appends, one after the other, in the order of the list.\<close>

fun storage_appends :: "'a list \<Rightarrow> 'a list \<Rightarrow> 'a list" where
  "storage_appends [] dq = dq"
| "storage_appends (temp # temps) dq =
     storage_appends temps (storage_append temp dq)"

subsection \<open>The timer loop (lines 80 to 93)\<close>

text \<open>The list \<^verbatim>\<open>temp\<close> of one iteration; \<open>now\<close> is what \<^verbatim>\<open>time.time()\<close> returns.\<close>

definition timer_temp :: "'f \<Rightarrow> 'f state \<Rightarrow> 'f row" where
  "timer_temp now st =
     [PFloat now, distance st, accel st, speed st, displacement st]"

definition timer_for_csv_iter :: "'f \<Rightarrow> 'f state \<Rightarrow> 'f state" where
  "timer_for_csv_iter now st =
     st\<lparr>storage := storage_append (timer_temp now st) (storage st)\<rparr>"

text \<open>
  The loop is \<^verbatim>\<open>while True\<close> and never returns. Its first iterations are run on the
  list of the clock readings they take.
\<close>

fun timer_for_csv :: "'f list \<Rightarrow> 'f state \<Rightarrow> 'f state" where
  "timer_for_csv [] st = st"
| "timer_for_csv (now # clock) st = timer_for_csv clock (timer_for_csv_iter now st)"

subsection \<open>Writing the file (lines 102 to 106)\<close>

definition header_row :: "'f row" where
  "header_row =
     [PStr ''timestamp'', PStr ''distance'', PStr ''accel'', PStr ''speed'',
      PStr ''displacement'']"

text \<open>
  The calls of \<^verbatim>\<open>writer.writerow\<close>, one per row, on the rows written so far. \<open>budget\<close>
  is \<open>None\<close> when no call fails and \<open>Some k\<close> when \<open>k\<close> more calls succeed. An exception
  leaves the loop at once.
\<close>

fun writerows :: "nat option \<Rightarrow> 'r list \<Rightarrow> 'r list \<Rightarrow> (error + unit) \<times> 'r list" where
  "writerows budget written [] =
     (case budget of None \<Rightarrow> (Inr (), written) | Some k \<Rightarrow> (Inl OSError, written))"
| "writerows budget written (r # rs) =
     (case budget of
        None \<Rightarrow> writerows None (written @ [r]) rs
      | Some 0 \<Rightarrow> (Inl OSError, written)
      | Some (Suc k) \<Rightarrow> writerows (Some k) (written @ [r]) rs)"

text \<open>
  \<^verbatim>\<open>
  with open(CSV_FILE_NAME_TOPIC, "w", newline="") as csvfile:
      writer = csv.writer(csvfile)
      writer.writerow(["timestamp", "distance", "accel", "speed", "displacement"])
      for entry in self.storage:
          writer.writerow(entry)
  \<close>
  Mode \<^verbatim>\<open>"w"\<close> empties the file when it opens it.
\<close>

definition write_csv :: "io \<Rightarrow> 'f state \<Rightarrow> (error + unit) \<times> 'f state" where
  "write_csv io st =
     (case io of
        OpenFails \<Rightarrow> (Inl OSError, st)
      | IoOk \<Rightarrow>
          (case writerows None [] (header_row # storage st) of
             (r, written) \<Rightarrow> (r, st\<lparr>csv_file := Some written\<rparr>))
      | WriteFails k \<Rightarrow>
          (case writerows (Some k) [] (header_row # storage st) of
             (r, written) \<Rightarrow> (r, st\<lparr>csv_file := Some written\<rparr>)))"

subsection \<open>The text of the file\<close>

text \<open>
  \<^verbatim>\<open>csv.writer\<close> in its default dialect: a field is the \<^verbatim>\<open>str\<close> of the value (empty for
  \<^verbatim>\<open>None\<close>), put in double quotes when it holds a comma, a double quote or a line
  break; fields are joined by commas and the row ends with CR LF.
\<close>

fun str_nat :: "nat \<Rightarrow> string" where
  "str_nat n =
     (if n < 10 then [''0123456789'' ! n]
      else str_nat (n div 10) @ [''0123456789'' ! (n mod 10)])"

declare str_nat.simps [simp del]

definition str_int :: "int \<Rightarrow> string" where
  "str_int i = (if i < 0 then ''-'' @ str_nat (nat (- i)) else str_nat (nat i))"

fun py_str :: "'f runtime \<Rightarrow> 'f pyval \<Rightarrow> string" where
  "py_str rt PNone = []"
| "py_str rt (PBool b) = (if b then ''True'' else ''False'')"
| "py_str rt (PInt i) = str_int i"
| "py_str rt (PFloat f) = float_str rt f"
| "py_str rt (PStr s) = s"

definition csv_special :: "char \<Rightarrow> bool" where
  "csv_special c = (c \<in> set [CHR '','', CHR 0x22, CHR 0x0D, CHR 0x0A])"

definition csv_field :: "string \<Rightarrow> string" where
  "csv_field s =
     (if list_ex csv_special s
      then [CHR 0x22] @ concat (map (\<lambda>c. if c = CHR 0x22 then [c, c] else [c]) s) @ [CHR 0x22]
      else s)"

fun join_fields :: "string list \<Rightarrow> string" where
  "join_fields [] = []"
| "join_fields [f] = f"
| "join_fields (f # g # fs) = f @ '','' @ join_fields (g # fs)"

definition writerow_text :: "'f runtime \<Rightarrow> 'f row \<Rightarrow> string" where
  "writerow_text rt r =
     (let fields = map (py_str rt) r
      in (if fields = [[]] then [CHR 0x22, CHR 0x22]
          else join_fields (map csv_field fields)) @ [CHR 0x0D, CHR 0x0A])"

definition csv_text :: "'f runtime \<Rightarrow> 'f row list \<Rightarrow> string" where
  "csv_text rt rows = concat (map (writerow_text rt) rows)"

subsection \<open>The crash event (lines 95 to 122)\<close>

text \<open>\<^verbatim>\<open>data[key]\<close> on what \<^verbatim>\<open>json.loads\<close> returned: only a \<^verbatim>\<open>dict\<close> takes a string key.\<close>

fun getitem :: "'f json \<Rightarrow> string \<Rightarrow> error + 'f json" where
  "getitem (JObject items) key =
     (case map_of items key of None \<Rightarrow> Inl KeyError | Some v \<Rightarrow> Inr v)"
| "getitem _ key = Inl TypeError"

text \<open>
  \<^verbatim>\<open>v == 0\<close>: numbers compare by value, \<^verbatim>\<open>False == 0\<close> holds since \<^verbatim>\<open>bool\<close> is a
  subclass of \<^verbatim>\<open>int\<close>, and anything else is unequal to \<^verbatim>\<open>0\<close>.
\<close>

fun eq_zero :: "'f runtime \<Rightarrow> 'f json \<Rightarrow> bool" where
  "eq_zero rt (JInt n) = (n = 0)"
| "eq_zero rt (JFloat f) = float_eq_zero rt f"
| "eq_zero rt (JBool b) = (\<not> b)"
| "eq_zero rt _ = False"

text \<open>\<^verbatim>\<open>set_response\<close>: the JSON value is the argument of \<^verbatim>\<open>json.dumps\<close>.\<close>

definition set_response :: "'f state \<Rightarrow> int \<Rightarrow> 'f state" where
  "set_response st status =
     st\<lparr>published := published st @
          [(SET_CRASH_RESPONSE_TOPIC,
            JObject [(''result'', JObject [(''status'', JInt status)])])]\<rparr>"

text \<open>
  The handler returns the exception it raises, if any, with the state it leaves:
  what was done before a \<^verbatim>\<open>raise\<close> stays done.
\<close>

definition on_crash_event_received ::
  "'f runtime \<Rightarrow> io \<Rightarrow> 'f state \<Rightarrow> string \<Rightarrow> (error + unit) \<times> 'f state" where
  "on_crash_event_received rt io st data_str =
     (case json_loads rt data_str of
        None \<Rightarrow> (Inl (json_loads_raises rt data_str), st)
      | Some data \<Rightarrow>
          (case getitem data ''status'' of
             Inl e \<Rightarrow> (Inl e, st)
           | Inr status \<Rightarrow>
               if eq_zero rt status then (Inr (), st)
               else
                 (case write_csv io st of
                    (Inl e, st1) \<Rightarrow> (Inl e, st1)
                  | (Inr u, st1) \<Rightarrow> (Inr (), set_response (st1\<lparr>storage := []\<rparr>) 0))))"

subsection \<open>Delivery of events\<close>

text \<open>
  What happens to the application from outside the crash handler: a reply on one of
  the four subscriptions or one iteration of the timer loop with its clock reading.
\<close>

datatype 'f update =
    DistanceChange "'f DataPointReply"
  | AccelChange "'f DataPointReply"
  | SpeedChange "'f DataPointReply"
  | DisplacementChange "'f DataPointReply"
  | TimerTick 'f

fun apply_update :: "'f update \<Rightarrow> 'f state \<Rightarrow> 'f state" where
  "apply_update (DistanceChange data) st = on_distance_change st data"
| "apply_update (AccelChange data) st = on_accel_change st data"
| "apply_update (SpeedChange data) st = on_speed_change st data"
| "apply_update (DisplacementChange data) st = on_displacement_change st data"
| "apply_update (TimerTick now) st = timer_for_csv_iter now st"

fun apply_updates :: "'f update list \<Rightarrow> 'f state \<Rightarrow> 'f state" where
  "apply_updates [] st = st"
| "apply_updates (u # us) st = apply_updates us (apply_update u st)"

text \<open>
  Modelled from the spec: when the crash handler and the timer loop run relative to
  each other is decided by the SDK that calls them (\<^verbatim>\<open>velocitas_sdk\<close>), which is not
  under \<^verbatim>\<open>src/\<close>; the source itself takes no lock. The spec (section 5) lets the
  trigger handler be suspended in one place, "the storage write suspends on I/O
  completion", and (section 4.4) has the Sampler "append to RingBuffer concurrently
  with TriggerHandler's drain+clear". So the handler below is
  \<open>on_crash_event_received\<close> line by line, except that the updates \<open>during\<close> run
  after the rows were handed to the writer and before \<^verbatim>\<open>self.storage.clear()\<close>.
\<close>

definition on_crash_event_received_during ::
  "'f runtime \<Rightarrow> io \<Rightarrow> 'f update list \<Rightarrow> 'f state \<Rightarrow> string \<Rightarrow>
     (error + unit) \<times> 'f state" where
  "on_crash_event_received_during rt io during st data_str =
     (case json_loads rt data_str of
        None \<Rightarrow> (Inl (json_loads_raises rt data_str), st)
      | Some data \<Rightarrow>
          (case getitem data ''status'' of
             Inl e \<Rightarrow> (Inl e, st)
           | Inr status \<Rightarrow>
               if eq_zero rt status then (Inr (), st)
               else
                 (case write_csv io st of
                    (Inl e, st1) \<Rightarrow> (Inl e, st1)
                  | (Inr u, st1) \<Rightarrow>
                      (Inr (),
                       set_response ((apply_updates during st1)\<lparr>storage := []\<rparr>) 0))))"

text \<open>
  An event is an update, or a message on the crash topic with the way the file system
  answers the dump it may start and the updates that fall into that dump's write.
\<close>

datatype 'f event =
    Update "'f update"
  | CrashEvent string io "'f update list"

text \<open>
  Modelled from the spec: the delivery of the events is SDK code, not under \<^verbatim>\<open>src/\<close>.
  The spec (section 5) has one stream of signal updates, one timer task and one
  trigger handler, suspended only where said above; and (section 7) "all non-fatal
  errors are contained within the component that detects them and reported via
  logging; none propagate to crash the sampling loop or the subscription listeners".
  So the events are delivered in their order, one crash event at a time, and an
  exception the crash handler raises does not end the process: the next event finds
  the state the handler left.
\<close>

fun step :: "'f runtime \<Rightarrow> 'f event \<Rightarrow> 'f state \<Rightarrow> 'f state" where
  "step rt (Update u) st = apply_update u st"
| "step rt (CrashEvent data_str io during) st =
     snd (on_crash_event_received_during rt io during st data_str)"

fun run :: "'f runtime \<Rightarrow> 'f event list \<Rightarrow> 'f state \<Rightarrow> 'f state" where
  "run rt [] st = st"
| "run rt (ev # evs) st = run rt evs (step rt ev st)"

subsection \<open>Where the samples go\<close>




text \<open>A crash event ran its dump when it returned normally and published its response.\<close>

definition dump_runs ::
  "'f runtime \<Rightarrow> io \<Rightarrow> 'f update list \<Rightarrow> 'f state \<Rightarrow> string \<Rightarrow> bool" where
  "dump_runs rt io during st data_str =
     (case on_crash_event_received_during rt io during st data_str of
        (Inl e, st') \<Rightarrow> False
      | (Inr u, st') \<Rightarrow> published st' \<noteq> published st)"









subsection \<open>Concrete inputs\<close>

text \<open>A text of 100000 opening brackets: \<^verbatim>\<open>json.loads\<close> raises \<^verbatim>\<open>RecursionError\<close> on it.\<close>

definition example_deep :: string where
  "example_deep = replicate 100000 (CHR ''['')"

text \<open>
  A library that parses the few payloads used below as \<^verbatim>\<open>json.loads\<close> does and refuses
  every other string; its floats are the integral ones, printed as Python prints them.
\<close>

definition example_runtime :: "int runtime" where
  \<open>example_runtime =
     \<lparr>json_loads = (\<lambda>s.
        if s = ''{"status": 0}'' then Some (JObject [(''status'', JInt 0)])
        else if s = ''{"status": 1}'' then Some (JObject [(''status'', JInt 1)])
        else if s = ''{"status": "high"}'' then Some (JObject [(''status'', JString ''high'')])
        else if s = ''{}'' then Some (JObject [])
        else if s = ''[1]'' then Some (JArray [JInt 1])
        else None),
      json_loads_raises = (\<lambda>s. if s = example_deep then RecursionError else JSONDecodeError),
      float_eq_zero = (\<lambda>f. f = 0),
      float_str = (\<lambda>f. str_int f @ ''.0'')\<rparr>\<close>

text \<open>The sample taken at time \<open>t\<close> while no signal has arrived yet.\<close>

definition example_sample :: "int \<Rightarrow> int row" where
  "example_sample t = [PFloat t, PInt 0, PInt 0, PInt 0, PInt 0]"

text \<open>The application after three, and after 300, iterations of the timer loop.\<close>

definition example_state :: "int state" where
  "example_state = timer_for_csv [1, 2, 3] (DataStorageApp_init None)"




section \<open>The deque keeps the newest 300 samples\<close>

lemma length_storage_append:
  "length (storage_append x s) = (if length s = 300 then 300 else Suc (length s))"
  by (simp add: storage_append_def)

lemma length_storage_appends:
  "length s \<le> 300 \<Longrightarrow> length (storage_appends xs s) \<le> 300"
  by (induction xs arbitrary: s) (simp_all add: length_storage_append)

lemma storage_appends_drop:
  "length s \<le> 300 \<Longrightarrow>
   storage_appends xs s = drop (length s + length xs - 300) (s @ xs)"
proof (induction xs arbitrary: s)
  case Nil
  then show ?case by simp
next
  case (Cons x xs)
  have len: "length (storage_append x s) \<le> 300"
    using Cons.prems by (simp add: length_storage_append)
  have "storage_appends (x # xs) s = storage_appends xs (storage_append x s)"
    by simp
  also have "\<dots> = drop (length (storage_append x s) + length xs - 300)
                     (storage_append x s @ xs)"
    using Cons.IH [OF len] .
  also have "\<dots> = drop (length s + length (x # xs) - 300) (s @ x # xs)"
  proof (cases "length s = 300")
    case True
    then obtain y ys where s: "s = y # ys" by (cases s) auto
    with True show ?thesis by (simp add: storage_append_def)
  next
    case False
    with Cons.prems show ?thesis by (simp add: storage_append_def)
  qed
  finally show ?case .
qed

text \<open>
  C1. Starting from a deque of at most 300 samples (every deque the program builds is
  one, see \<open>reachable_length\<close> below), after any run of appends, and after every prefix of the run, the deque holds at
  most 300 samples; once 300 or more samples have been appended it holds exactly 300,
  and they are the last 300 appended, oldest first.
\<close>

theorem storage_appends_keeps_newest_300:
  assumes "length s \<le> 300"
  shows "(\<forall>k \<le> length xs. length (storage_appends (take k xs) s) \<le> 300)
       \<and> (300 \<le> length xs \<longrightarrow>
            length (storage_appends xs s) = 300
          \<and> storage_appends xs s = drop (length xs - 300) xs)"
proof (intro conjI allI impI)
  fix k
  show "length (storage_appends (take k xs) s) \<le> 300"
    using assms by (rule length_storage_appends)
next
  assume n: "300 \<le> length xs"
  have eq: "storage_appends xs s = drop (length s + length xs - 300) (s @ xs)"
    using assms by (rule storage_appends_drop)
  from n have "length s + length xs - 300 = length s + (length xs - 300)"
    by simp
  then show "storage_appends xs s = drop (length xs - 300) xs"
    using eq by simp
  with n show "length (storage_appends xs s) = 300"
    by simp
qed

theorem storage_appends_keeps_newest_300_witness:
  "length [7, 8 :: nat] \<le> 300
   \<and> 150 \<le> length [0 ..< 302]
   \<and> length (storage_appends (take 150 [0 ..< 302]) [7, 8]) \<le> 300
   \<and> 300 \<le> length [0 ..< 302]
   \<and> length (storage_appends [0 ..< 302] [7, 8]) = 300
   \<and> storage_appends [0 ..< 302] [7, 8] = [2 ..< 302]"
proof -
  have h: "length [7, 8 :: nat] \<le> 300"
    by simp
  note t = storage_appends_keeps_newest_300 [OF h, of "[0 ..< 302]"]
  have k: "150 \<le> length [0 ..< 302]"
    by simp
  from t k have a: "length (storage_appends (take 150 [0 ..< 302]) [7, 8]) \<le> 300"
    by blast
  from t have b: "length (storage_appends [0 ..< 302] [7, 8]) = 300
      \<and> storage_appends [0 ..< 302] [7, 8] = [2 ..< 302]"
    by (simp add: drop_upt numeral_2_eq_2 del: upt_rec_numeral)
  from h k a b show ?thesis
    by (simp del: upt_rec_numeral)
qed

text \<open>
  C8. Up to 300 appends into an empty deque evict nothing: after every prefix of the
  run the deque is exactly the samples appended so far.
\<close>

theorem storage_appends_from_empty_retains_all:
  assumes "length xs \<le> 300"
  shows "\<forall>k \<le> length xs. storage_appends (take k xs) [] = take k xs"
proof (intro allI impI)
  fix k
  assume "k \<le> length xs"
  with assms have "length (take k xs) \<le> 300" by simp
  then show "storage_appends (take k xs) [] = take k xs"
    using storage_appends_drop [of "[]" "take k xs"] by simp
qed

theorem storage_appends_from_empty_retains_all_witness:
  "length [0 ..< 300] \<le> 300
   \<and> 120 \<le> length [0 ..< 300]
   \<and> storage_appends (take 120 [0 ..< 300]) [] = [0 ..< 120]
   \<and> storage_appends [0 ..< 300] [] = [0 ..< 300]"
proof -
  have h: "length [0 ..< 300] \<le> 300"
    by simp
  note t = storage_appends_from_empty_retains_all [OF h]
  have k: "120 \<le> length [0 ..< 300]"
    by simp
  have k': "300 \<le> length [0 ..< 300]"
    by simp
  from t k have a: "storage_appends (take 120 [0 ..< 300]) [] = take 120 [0 ..< 300]"
    by blast
  from t k' have b: "storage_appends (take 300 [0 ..< 300]) [] = take 300 [0 ..< 300]"
    by blast
  from h k a b show ?thesis
    by (simp add: take_upt del: upt_rec_numeral)
qed

section \<open>The timer loop appends to the deque\<close>

lemma timer_temp_iter [simp]: "timer_temp t (timer_for_csv_iter now st) = timer_temp t st"
  by (simp add: timer_temp_def timer_for_csv_iter_def)





lemma example_state_eq:
  "example_state =
     \<lparr>distance = PInt 0, accel = PInt 0, speed = PInt 0, displacement = PInt 0,
      storage = [example_sample 1, example_sample 2, example_sample 3],
      csv_file = None, published = []\<rparr>"
  by (simp add: example_state_def DataStorageApp_init_def timer_for_csv_iter_def
        timer_temp_def storage_append_def example_sample_def)


section \<open>The crash event\<close>

lemma writerows_None: "writerows None acc rs = (Inr (), acc @ rs)"
  by (induction rs arbitrary: acc) simp_all

lemma writerows_Some: "writerows (Some k) acc rs = (Inl OSError, acc @ take k rs)"
proof (induction rs arbitrary: acc k)
  case Nil
  then show ?case by simp
next
  case (Cons r rs)
  then show ?case by (cases k) simp_all
qed

lemma write_csv_IoOk:
  "write_csv IoOk st = (Inr (), st\<lparr>csv_file := Some (header_row # storage st)\<rparr>)"
  by (simp add: write_csv_def writerows_None)

lemma write_csv_OpenFails: "write_csv OpenFails st = (Inl OSError, st)"
  by (simp add: write_csv_def)

lemma write_csv_WriteFails:
  "write_csv (WriteFails k) st =
     (Inl OSError, st\<lparr>csv_file := Some (take k (header_row # storage st))\<rparr>)"
  by (cases k) (simp_all add: write_csv_def writerows_Some)

lemma example_loads_1:
  \<open>json_loads example_runtime ''{"status": 1}'' = Some (JObject [(''status'', JInt 1)])\<close>
  by (simp add: example_runtime_def)

lemma example_getitem_1:
  "getitem (JObject [(''status'', JInt 1)] :: int json) ''status'' = Inr (JInt 1)"
  by simp

lemma example_nonzero_1: "\<not> eq_zero example_runtime (JInt 1)"
  by simp

text \<open>
  C2. When the payload parses to an object whose \<^verbatim>\<open>status\<close> is not equal to 0 and
  the file system plays along, the handler returns normally and leaves: the file
  holding the header row followed by the samples of the deque, oldest first; the deque
  empty; and one more published message, on the response topic, with result status 0.
  Nothing else changes. This holds for every deque, the empty one included.
\<close>

theorem crash_event_dumps_clears_and_acknowledges:
  assumes "json_loads rt data_str = Some data"
    and "getitem data ''status'' = Inr status"
    and "\<not> eq_zero rt status"
  shows "on_crash_event_received rt IoOk st data_str =
           (Inr (),
            st\<lparr>storage := [],
               csv_file := Some (header_row # storage st),
               published := published st @
                 [(SET_CRASH_RESPONSE_TOPIC,
                   JObject [(''result'', JObject [(''status'', JInt 0)])])]\<rparr>)"
  using assms
  by (simp add: on_crash_event_received_def write_csv_IoOk set_response_def)

theorem crash_event_dumps_clears_and_acknowledges_witness:
  \<open>json_loads example_runtime ''{"status": 1}'' = Some (JObject [(''status'', JInt 1)])
   \<and> getitem (JObject [(''status'', JInt 1)] :: int json) ''status'' = Inr (JInt 1)
   \<and> \<not> eq_zero example_runtime (JInt 1)
   \<and> storage example_state \<noteq> []
   \<and> on_crash_event_received example_runtime IoOk example_state ''{"status": 1}'' =
       (Inr (),
        \<lparr>distance = PInt 0, accel = PInt 0, speed = PInt 0, displacement = PInt 0,
         storage = [],
         csv_file = Some [header_row, example_sample 1, example_sample 2, example_sample 3],
         published = [(''crashdetect/crashed/response'',
                       JObject [(''result'', JObject [(''status'', JInt 0)])])]\<rparr>)\<close>
  using example_loads_1 example_getitem_1 example_nonzero_1
    crash_event_dumps_clears_and_acknowledges
      [OF example_loads_1 example_getitem_1 example_nonzero_1, of example_state]
  by (simp add: example_state_eq SET_CRASH_RESPONSE_TOPIC_def)

text \<open>
  C3. When the payload parses to an object whose \<^verbatim>\<open>status\<close> equals 0, the handler
  returns at once: the whole state is as before, so the deque and the cached signals
  are unchanged, no file is written and nothing is published.
\<close>

theorem crash_event_status_zero_is_ignored:
  assumes "json_loads rt data_str = Some data"
    and "getitem data ''status'' = Inr status"
    and "eq_zero rt status"
  shows "on_crash_event_received rt io st data_str = (Inr (), st)"
  using assms by (simp add: on_crash_event_received_def)

theorem crash_event_status_zero_is_ignored_witness:
  \<open>json_loads example_runtime ''{"status": 0}'' = Some (JObject [(''status'', JInt 0)])
   \<and> getitem (JObject [(''status'', JInt 0)] :: int json) ''status'' = Inr (JInt 0)
   \<and> eq_zero example_runtime (JInt 0)
   \<and> on_crash_event_received example_runtime IoOk example_state ''{"status": 0}'' =
       (Inr (), example_state)\<close>
proof -
  have a: \<open>json_loads example_runtime ''{"status": 0}'' = Some (JObject [(''status'', JInt 0)])\<close>
    by (simp add: example_runtime_def)
  have b: "getitem (JObject [(''status'', JInt 0)] :: int json) ''status'' = Inr (JInt 0)"
    by simp
  have c: "eq_zero example_runtime (JInt 0)"
    by simp
  show ?thesis
    using a b c crash_event_status_zero_is_ignored [OF a b c, of IoOk example_state]
    by simp
qed

section \<open>The crash event among other events\<close>


lemma apply_update_frame:
  "csv_file (apply_update u st) = csv_file st \<and> published (apply_update u st) = published st"
  by (cases u)
     (simp_all add: on_distance_change_def on_accel_change_def on_speed_change_def
        on_displacement_change_def timer_for_csv_iter_def)

lemma apply_updates_frame:
  "csv_file (apply_updates us st) = csv_file st
   \<and> published (apply_updates us st) = published st"
  by (induction us arbitrary: st) (simp_all add: apply_update_frame)

text \<open>
  The only suspension the source itself shows in the handler is the \<^verbatim>\<open>await\<close> of line
  110, after the clear. An update that runs there has the effect it has after the
  handler: it does not read what \<^verbatim>\<open>set_response\<close> writes.
\<close>

lemma set_response_apply_update:
  "set_response (apply_update u st) status = apply_update u (set_response st status)"
  by (cases u)
     (simp_all add: set_response_def on_distance_change_def on_accel_change_def
        on_speed_change_def on_displacement_change_def timer_for_csv_iter_def timer_temp_def)










section \<open>Samples over a run of events\<close>





text \<open>
  A crash event either leaves the deque alone, or writes all of it to the file and
  empties it together with whatever was appended in between.
\<close>

lemma crash_step:
  "(\<not> dump_runs rt io during st s
      \<and> storage (snd (on_crash_event_received_during rt io during st s)) = storage st)
   \<or> (dump_runs rt io during st s
      \<and> storage (snd (on_crash_event_received_during rt io during st s)) = []
      \<and> csv_file (snd (on_crash_event_received_during rt io during st s)) =
          Some (header_row # storage st))"
  by (cases io)
     (auto simp: on_crash_event_received_during_def dump_runs_def write_csv_IoOk
        write_csv_OpenFails write_csv_WriteFails set_response_def apply_updates_frame
        split: option.splits sum.splits if_splits)

lemma update_length:
  "length (storage st) \<le> 300 \<Longrightarrow> length (storage (apply_update u st)) \<le> 300"
  by (cases u)
     (simp_all add: on_distance_change_def on_accel_change_def on_speed_change_def
        on_displacement_change_def timer_for_csv_iter_def length_storage_append)

lemma step_length:
  "length (storage st) \<le> 300 \<Longrightarrow> length (storage (step rt ev st)) \<le> 300"
proof (cases ev)
  case (Update u)
  assume "length (storage st) \<le> 300"
  with Update show ?thesis by (simp add: update_length)
next
  case (CrashEvent s io during)
  assume "length (storage st) \<le> 300"
  with crash_step [of rt io during st s] CrashEvent show ?thesis by auto
qed

lemma run_length:
  "length (storage st) \<le> 300 \<Longrightarrow> length (storage (run rt evs st)) \<le> 300"
  by (induction evs arbitrary: st) (simp_all add: step_length)

text \<open>Whatever happens after \<^verbatim>\<open>__init__\<close>, the deque never holds more than 300 samples.\<close>

lemma reachable_length:
  "length (storage (run rt evs (DataStorageApp_init fs))) \<le> 300"
  by (rule run_length) (simp add: DataStorageApp_init_def)










section \<open>The file\<close>

lemma header_text:
  "writerow_text rt header_row =
     ''timestamp,distance,accel,speed,displacement'' @ [CHR 0x0D, CHR 0x0A]"
  by (simp add: writerow_text_def header_row_def csv_field_def csv_special_def)

lemma sample_text:
  "writerow_text rt [t, d, a, s, p] =
     csv_field (py_str rt t) @ '','' @ csv_field (py_str rt d) @ '','' @
     csv_field (py_str rt a) @ '','' @ csv_field (py_str rt s) @ '','' @
     csv_field (py_str rt p) @ [CHR 0x0D, CHR 0x0A]"
  by (simp add: writerow_text_def)

text \<open>
  C7. A dump that goes through leaves the file holding the header row and then the
  samples of the deque, whatever the file held before (mode \<^verbatim>\<open>"w"\<close>: nothing of the old
  content stays and nothing is appended to it). Its text starts with the line
  \<^verbatim>\<open>timestamp,distance,accel,speed,displacement\<close> and goes on with one line per sample;
  the line of a sample built by the timer loop is its time stamp and then the cached
  distance, accel, speed and displacement, in the order of the header, joined by commas.
\<close>

theorem dump_rewrites_csv_file:
  assumes "json_loads rt data_str = Some data"
    and "getitem data ''status'' = Inr status"
    and "\<not> eq_zero rt status"
  shows "csv_file (snd (on_crash_event_received rt IoOk (st\<lparr>csv_file := old\<rparr>) data_str))
           = Some (header_row # storage st)
       \<and> csv_text rt (header_row # storage st) =
           ''timestamp,distance,accel,speed,displacement'' @ [CHR 0x0D, CHR 0x0A] @
           concat (map (writerow_text rt) (storage st))
       \<and> writerow_text rt (timer_temp now c) =
           csv_field (float_str rt now) @ '','' @ csv_field (py_str rt (distance c)) @ '','' @
           csv_field (py_str rt (accel c)) @ '','' @ csv_field (py_str rt (speed c)) @ '','' @
           csv_field (py_str rt (displacement c)) @ [CHR 0x0D, CHR 0x0A]"
proof (intro conjI)
  show "csv_file (snd (on_crash_event_received rt IoOk (st\<lparr>csv_file := old\<rparr>) data_str))
           = Some (header_row # storage st)"
    using assms by (simp add: on_crash_event_received_def write_csv_IoOk set_response_def)
  show "csv_text rt (header_row # storage st) =
           ''timestamp,distance,accel,speed,displacement'' @ [CHR 0x0D, CHR 0x0A] @
           concat (map (writerow_text rt) (storage st))"
    by (simp add: csv_text_def header_text)
  show "writerow_text rt (timer_temp now c) =
           csv_field (float_str rt now) @ '','' @ csv_field (py_str rt (distance c)) @ '','' @
           csv_field (py_str rt (accel c)) @ '','' @ csv_field (py_str rt (speed c)) @ '','' @
           csv_field (py_str rt (displacement c)) @ [CHR 0x0D, CHR 0x0A]"
    unfolding timer_temp_def sample_text by simp
qed

theorem dump_rewrites_csv_file_witness:
  \<open>json_loads example_runtime ''{"status": 1}'' = Some (JObject [(''status'', JInt 1)])
   \<and> getitem (JObject [(''status'', JInt 1)] :: int json) ''status'' = Inr (JInt 1)
   \<and> \<not> eq_zero example_runtime (JInt 1)
   \<and> csv_file (snd (on_crash_event_received example_runtime IoOk
        (example_state\<lparr>csv_file := Some [[PStr ''stale'']]\<rparr>) ''{"status": 1}''))
       = Some [header_row, example_sample 1, example_sample 2, example_sample 3]
   \<and> csv_text example_runtime [header_row, example_sample 1, example_sample 2, example_sample 3]
       = ''timestamp,distance,accel,speed,displacement'' @ [CHR 0x0D, CHR 0x0A] @
         ''1.0,0,0,0,0'' @ [CHR 0x0D, CHR 0x0A] @
         ''2.0,0,0,0,0'' @ [CHR 0x0D, CHR 0x0A] @
         ''3.0,0,0,0,0'' @ [CHR 0x0D, CHR 0x0A]\<close>
proof -
  have rows: "map (writerow_text example_runtime)
                [example_sample 1, example_sample 2, example_sample 3] =
              [''1.0,0,0,0,0'' @ [CHR 0x0D, CHR 0x0A], ''2.0,0,0,0,0'' @ [CHR 0x0D, CHR 0x0A],
               ''3.0,0,0,0,0'' @ [CHR 0x0D, CHR 0x0A]]"
    by (simp add: example_sample_def sample_text example_runtime_def str_int_def str_nat.simps
          csv_field_def csv_special_def)
  show ?thesis
    using example_loads_1 example_getitem_1 example_nonzero_1 rows
      dump_rewrites_csv_file [OF example_loads_1 example_getitem_1 example_nonzero_1,
        where st = example_state and old = "Some [[PStr ''stale'']]"]
    by (simp add: example_state_eq)
qed

text \<open>
  C9. Reading the deque for the file (the loop \<^verbatim>\<open>for entry in self.storage\<close>) does not
  change it, whether the writing succeeds or fails. Read twice in a row, it gives the
  same rows both times, the samples of the deque oldest first, and the state after the
  second reading is the state after the first.
\<close>

theorem writing_the_file_leaves_storage:
  "storage (snd (write_csv io st)) = storage st
   \<and> csv_file (snd (write_csv IoOk st)) = Some (header_row # storage st)
   \<and> csv_file (snd (write_csv IoOk (snd (write_csv IoOk st)))) = Some (header_row # storage st)
   \<and> snd (write_csv IoOk (snd (write_csv IoOk st))) = snd (write_csv IoOk st)
   \<and> snd (write_csv IoOk st) = st\<lparr>csv_file := Some (header_row # storage st)\<rparr>"
  by (cases io) (simp_all add: write_csv_IoOk write_csv_OpenFails write_csv_WriteFails)

section \<open>The signal callbacks\<close>

text \<open>
  C10. Each of the four signal callbacks stores the value of its own signal in its
  own slot: the other three slots, the deque, the file and the published messages are
  as before.
\<close>

theorem signal_callbacks_write_their_own_slot:
  "on_distance_change st data =
     \<lparr>distance = data IsWarning, accel = accel st, speed = speed st,
      displacement = displacement st, storage = storage st, csv_file = csv_file st,
      published = published st\<rparr>
   \<and> on_accel_change st data =
     \<lparr>distance = distance st, accel = data Longitudinal, speed = speed st,
      displacement = displacement st, storage = storage st, csv_file = csv_file st,
      published = published st\<rparr>
   \<and> on_speed_change st data =
     \<lparr>distance = distance st, accel = accel st, speed = data Speed,
      displacement = displacement st, storage = storage st, csv_file = csv_file st,
      published = published st\<rparr>
   \<and> on_displacement_change st data =
     \<lparr>distance = distance st, accel = accel st, speed = speed st,
      displacement = data Displacement, storage = storage st, csv_file = csv_file st,
      published = published st\<rparr>"
  by (simp add: on_distance_change_def on_accel_change_def on_speed_change_def
        on_displacement_change_def)

end
